theory Spec2Isabelle
  imports Complex_Main "HOL-Library.Sublist"
begin

section \<open>The document grid of MongoDBDataTable.vue\<close>

text \<open>
  The component keeps its state in Vue refs and changes it in event handlers. The
  refs become one record, each handler a function from the record to the record after
  the handler has run. What the platform answers (a remote command, the confirm dialog,
  the JSON parser) is an argument of the handler.
\<close>

subsection \<open>JavaScript values\<close>

text \<open>
  A JavaScript number is NaN, an infinity or a finite value. Finite values are kept as
  exact rationals: the rounding of IEEE doubles and the negative zero are not modelled.
\<close>

datatype jsnum = NaN | PosInfinity | NegInfinity | Fin rat

text \<open>
  The values a document holds. The pairs of \<open>JObj\<close> are the object's own properties in
  the order \<open>Object.keys\<close> lists them. \<open>undefined\<close>, which a read of an absent
  property gives, is \<open>None\<close> of \<open>json option\<close>.
\<close>

datatype json =
    JNull
  | JBool bool
  | JNum jsnum
  | JStr string
  | JArr "json list"
  | JObj "(string \<times> json) list"

type_synonym doc = "(string \<times> json) list"

text \<open>What a \<open>catch\<close> clause receives: an Error object (name, message) or a thrown string,
  which is how a rejected \<open>invoke\<close> delivers the command's error.\<close>

datatype thrown = ErrorObj string string | ThrownStr string

subsection \<open>The component's state\<close>

record grid =
  collectionName :: string
  documents :: "doc list"
  isLoading :: bool
  errorMessage :: string
  pageSize :: nat
  currentPage :: int
  filterQuery :: string
  editingCell :: "(nat \<times> string) option"
  editValue :: string
  isSaving :: bool
  collectionsList :: "string list"

text \<open>The refs as the script creates them (lines 34 to 45 and 155).\<close>

definition initial_grid :: grid where
  "initial_grid = \<lparr>
     collectionName = ''users'',
     documents = [],
     isLoading = False,
     errorMessage = '''',
     pageSize = 10,
     currentPage = 1,
     filterQuery = ''{}'',
     editingCell = None,
     editValue = '''',
     isSaving = False,
     collectionsList = [] \<rparr>"

subsection \<open>Pagination\<close>

text \<open>
  \<^verbatim>\<open>const totalPages = computed(() => Math.ceil(documents.value.length / pageSize.value));\<close>

  The quotient is exact here, and for array lengths and integer page sizes the double
  division followed by \<open>Math.ceil\<close> gives the same integer. A page size of 0 makes the
  JavaScript quotient \<open>Infinity\<close> or \<open>NaN\<close>, which \<open>int\<close> does not hold: statements
  about \<open>totalPages\<close> assume a positive page size.
\<close>

definition totalPages :: "grid \<Rightarrow> int" where
  "totalPages s = \<lceil>rat_of_nat (length (documents s)) / rat_of_nat (pageSize s)\<rceil>"

text \<open>\<open>Array.prototype.slice\<close> on integer arguments: a negative bound counts from the
  end, both bounds are cut to the array, and nothing is taken when the end is not after
  the start.\<close>

definition slice_bound :: "nat \<Rightarrow> int \<Rightarrow> nat" where
  "slice_bound len i = nat (if i < 0 then max (int len + i) 0 else min i (int len))"

definition slice :: "'a list \<Rightarrow> int \<Rightarrow> int \<Rightarrow> 'a list" where
  "slice xs start end =
     (let k = slice_bound (length xs) start;
          final = slice_bound (length xs) end
      in take (final - k) (drop k xs))"

definition pageStart :: "grid \<Rightarrow> int" where
  "pageStart s = (currentPage s - 1) * int (pageSize s)"

definition paginatedDocuments :: "grid \<Rightarrow> doc list" where
  "paginatedDocuments s =
     (let start = pageStart s; end = start + int (pageSize s)
      in slice (documents s) start end)"

text \<open>The rows shown when the current page is \<open>p\<close>.\<close>

definition pageRows :: "grid \<Rightarrow> int \<Rightarrow> doc list" where
  "pageRows s p = paginatedDocuments (s\<lparr>currentPage := p\<rparr>)"

definition onPageChange :: "int \<Rightarrow> grid \<Rightarrow> grid" where
  "onPageChange page s = s\<lparr>currentPage := page\<rparr>"

text \<open>
  The pagination controls of the template (lines 289 to 301), rendered only while
  \<open>totalPages > 1\<close> (line 284), and the \<open>v-model\<close> of the page-size select (line 309).
  \<open>pageSize\<close> is a number, as the script declares and initialises it; the items of the
  select are written as text (\<open>value="5"\<close>), and a page size held as text is not
  modelled.
\<close>

definition paginationFirst :: "grid \<Rightarrow> grid" where
  "paginationFirst s = s\<lparr>currentPage := 1\<rparr>"

definition paginationPrev :: "grid \<Rightarrow> grid" where
  "paginationPrev s = s\<lparr>currentPage := max 1 (currentPage s - 1)\<rparr>"

definition paginationNext :: "grid \<Rightarrow> grid" where
  "paginationNext s = s\<lparr>currentPage := min (totalPages s) (currentPage s + 1)\<rparr>"

definition paginationLast :: "grid \<Rightarrow> grid" where
  "paginationLast s = s\<lparr>currentPage := totalPages s\<rparr>"

definition selectPageSize :: "nat \<Rightarrow> grid \<Rightarrow> grid" where
  "selectPageSize n s = s\<lparr>pageSize := n\<rparr>"

subsection \<open>Table headers\<close>

text \<open>
  A JavaScript \<open>Set\<close> of strings keeps its members in insertion order and ignores the
  insertion of a member it has: a list without repetition, new members at the end.
\<close>

definition Set_add :: "string list \<Rightarrow> string \<Rightarrow> string list" where
  "Set_add h k = (if k \<in> set h then h else h @ [k])"

definition Object_keys :: "doc \<Rightarrow> string list" where
  "Object_keys d = map fst d"

text \<open>
  \<^verbatim>\<open>const headers = new Set<string>();
  headers.add('_id');
  documents.value.forEach(doc => { Object.keys(doc).forEach(key => headers.add(key)); });
  return Array.from(headers);\<close>
\<close>

definition tableHeaders :: "grid \<Rightarrow> string list" where
  "tableHeaders s =
     foldl (\<lambda>headers d. foldl Set_add headers (Object_keys d)) (Set_add [] ''_id'') (documents s)"

text \<open>The position at which a name first occurs in a sequence of names (its length when
  the name does not occur).\<close>

definition firstIndex :: "string list \<Rightarrow> string \<Rightarrow> nat" where
  "firstIndex ks k = length (takeWhile (\<lambda>x. x \<noteq> k) ks)"

subsection \<open>Built-in functions\<close>

definition typeof :: "json option \<Rightarrow> string" where
  "typeof v =
     (case v of
        None \<Rightarrow> ''undefined''
      | Some JNull \<Rightarrow> ''object''
      | Some (JBool _) \<Rightarrow> ''boolean''
      | Some (JNum _) \<Rightarrow> ''number''
      | Some (JStr _) \<Rightarrow> ''string''
      | Some (JArr _) \<Rightarrow> ''object''
      | Some (JObj _) \<Rightarrow> ''object'')"

definition digit_char :: "nat \<Rightarrow> char" where
  "digit_char d = ''0123456789abcdef'' ! d"

function nat_to_string :: "nat \<Rightarrow> string" where
  "nat_to_string n =
     (if n < 10 then [digit_char n] else nat_to_string (n div 10) @ [digit_char (n mod 10)])"
  by pat_completeness auto
termination
  by (relation "measure (\<lambda>n. n)") auto

declare nat_to_string.simps [simp del]

fun frac_digits :: "nat \<Rightarrow> rat \<Rightarrow> string" where
  "frac_digits 0 f = []"
| "frac_digits (Suc fuel) f =
     (if f = 0 then []
      else digit_char (nat \<lfloor>f * 10\<rfloor>) # frac_digits fuel (f * 10 - rat_of_int \<lfloor>f * 10\<rfloor>))"

definition pos_to_string :: "rat \<Rightarrow> string" where
  "pos_to_string q =
     nat_to_string (nat \<lfloor>q\<rfloor>) @
     (if q = rat_of_int \<lfloor>q\<rfloor> then [] else ''.'' @ frac_digits 20 (q - rat_of_int \<lfloor>q\<rfloor>))"

text \<open>
  \<open>Number.prototype.toString\<close>: exact on the integers below \<open>10^21\<close> in magnitude, whose
  decimal digits it prints. Other finite values print as a decimal expansion of at most
  20 fraction digits, where JavaScript prints the shortest digits that read back as the
  same double, in exponent form for large and small magnitudes.
\<close>

definition Number_toString :: "jsnum \<Rightarrow> string" where
  "Number_toString n =
     (case n of
        NaN \<Rightarrow> ''NaN''
      | PosInfinity \<Rightarrow> ''Infinity''
      | NegInfinity \<Rightarrow> ''-Infinity''
      | Fin q \<Rightarrow> (if q < 0 then ''-'' @ pos_to_string (- q) else pos_to_string q))"

fun join :: "string \<Rightarrow> string list \<Rightarrow> string" where
  "join sep [] = []"
| "join sep [x] = x"
| "join sep (x # y # ys) = x @ sep @ join sep (y # ys)"

text \<open>\<open>String(value)\<close>. An array prints its members separated by commas, \<open>null\<close> members
  as nothing; a plain object prints as \<open>[object Object]\<close>.\<close>

fun json_to_string :: "json \<Rightarrow> string" where
  "json_to_string JNull = ''null''"
| "json_to_string (JBool b) = (if b then ''true'' else ''false'')"
| "json_to_string (JNum n) = Number_toString n"
| "json_to_string (JStr s) = s"
| "json_to_string (JArr xs) =
     join '','' (map (\<lambda>x. if x = JNull then [] else json_to_string x) xs)"
| "json_to_string (JObj kvs) = ''[object Object]''"

definition ToString :: "json option \<Rightarrow> string" where
  "ToString v = (case v of None \<Rightarrow> ''undefined'' | Some j \<Rightarrow> json_to_string j)"

definition escape_char :: "char \<Rightarrow> string" where
  "escape_char c =
     (if c = CHR 0x22 then [CHR 0x5C, CHR 0x22]
      else if c = CHR 0x5C then [CHR 0x5C, CHR 0x5C]
      else if c = CHR 0x08 then [CHR 0x5C, CHR ''b'']
      else if c = CHR 0x0C then [CHR 0x5C, CHR ''f'']
      else if c = CHR 0x0A then [CHR 0x5C, CHR ''n'']
      else if c = CHR 0x0D then [CHR 0x5C, CHR ''r'']
      else if c = CHR 0x09 then [CHR 0x5C, CHR ''t'']
      else if (of_char c :: nat) < 32
        then [CHR 0x5C, CHR ''u'', CHR ''0'', CHR ''0'',
              digit_char ((of_char c :: nat) div 16), digit_char ((of_char c :: nat) mod 16)]
      else [c])"

definition quote :: "string \<Rightarrow> string" where
  "quote s = [CHR 0x22] @ concat (map escape_char s) @ [CHR 0x22]"

text \<open>
  The serialisation of \<open>JSON.stringify\<close>: \<open>gap\<close> is the indentation unit (empty for the
  compact form) and \<open>ind\<close> the indentation of the enclosing line. A number that is not
  finite is written \<open>null\<close>.
\<close>

fun stringify :: "string \<Rightarrow> string \<Rightarrow> json \<Rightarrow> string" where
  "stringify gap ind JNull = ''null''"
| "stringify gap ind (JBool b) = (if b then ''true'' else ''false'')"
| "stringify gap ind (JNum n) = (case n of Fin q \<Rightarrow> Number_toString n | _ \<Rightarrow> ''null'')"
| "stringify gap ind (JStr s) = quote s"
| "stringify gap ind (JArr xs) =
     (if xs = [] then ''[]''
      else if gap = [] then ''['' @ join '','' (map (stringify gap (ind @ gap)) xs) @ '']''
      else ''['' @ [CHR 0x0A] @ ind @ gap @
           join ('','' @ [CHR 0x0A] @ ind @ gap) (map (stringify gap (ind @ gap)) xs) @
           [CHR 0x0A] @ ind @ '']'')"
| "stringify gap ind (JObj kvs) =
     (if kvs = [] then ''{}''
      else if gap = []
        then ''{'' @
             join '','' (map (\<lambda>kv. quote (fst kv) @ '':'' @ stringify gap (ind @ gap) (snd kv)) kvs) @
             ''}''
      else ''{'' @ [CHR 0x0A] @ ind @ gap @
           join ('','' @ [CHR 0x0A] @ ind @ gap)
             (map (\<lambda>kv. quote (fst kv) @ '': '' @ stringify gap (ind @ gap) (snd kv)) kvs) @
           [CHR 0x0A] @ ind @ ''}'')"

text \<open>\<open>JSON.stringify(value, null, space)\<close>; \<open>JSON.stringify(value)\<close> is \<open>space = 0\<close>.\<close>

definition JSON_stringify :: "nat \<Rightarrow> json \<Rightarrow> string" where
  "JSON_stringify space v = stringify (replicate (min space 10) CHR '' '') [] v"

text \<open>
  \<open>parseFloat\<close>: white space is skipped, then the longest prefix that is a decimal
  literal (sign, digits, fraction, exponent, or \<open>Infinity\<close>) is read; without one the
  result is \<open>NaN\<close>. It never throws. Only the ASCII white space is skipped here, and
  the value read is the exact decimal: no rounding to a double, no overflow to
  \<open>Infinity\<close>.
\<close>

definition is_space :: "char \<Rightarrow> bool" where
  "is_space c = (c \<in> set [CHR 0x20, CHR 0x09, CHR 0x0A, CHR 0x0B, CHR 0x0C, CHR 0x0D])"

definition is_digit :: "char \<Rightarrow> bool" where
  "is_digit c = (c \<in> set ''0123456789'')"

definition digit_value :: "char \<Rightarrow> nat" where
  "digit_value c = of_char c - 48"

definition digits_value :: "string \<Rightarrow> nat" where
  "digits_value ds = foldl (\<lambda>a c. a * 10 + digit_value c) 0 ds"

definition parse_exponent :: "string \<Rightarrow> int" where
  "parse_exponent r =
     (case r of
        [] \<Rightarrow> 0
      | c # r1 \<Rightarrow>
          if c = CHR ''e'' \<or> c = CHR ''E'' then
            (case r1 of
               [] \<Rightarrow> 0
             | c1 # r2 \<Rightarrow>
                 if c1 = CHR ''-'' then - int (digits_value (takeWhile is_digit r2))
                 else if c1 = CHR ''+'' then int (digits_value (takeWhile is_digit r2))
                 else int (digits_value (takeWhile is_digit r1)))
          else 0)"

definition parse_unsigned :: "string \<Rightarrow> jsnum" where
  "parse_unsigned t =
     (if prefix ''Infinity'' t then PosInfinity
      else
        let ip = takeWhile is_digit t;
            r = dropWhile is_digit t;
            dot = (r \<noteq> [] \<and> hd r = CHR ''.'');
            fp = (if dot then takeWhile is_digit (tl r) else []);
            r2 = (if dot then dropWhile is_digit (tl r) else r)
        in if ip = [] \<and> fp = [] then NaN
           else Fin ((rat_of_nat (digits_value ip) + rat_of_nat (digits_value fp) / 10 ^ length fp)
                      * 10 powi parse_exponent r2))"

definition negate :: "jsnum \<Rightarrow> jsnum" where
  "negate n =
     (case n of
        NaN \<Rightarrow> NaN
      | PosInfinity \<Rightarrow> NegInfinity
      | NegInfinity \<Rightarrow> PosInfinity
      | Fin q \<Rightarrow> Fin (- q))"

definition parseFloat :: "string \<Rightarrow> jsnum" where
  "parseFloat s =
     (let t = dropWhile is_space s
      in case t of
           [] \<Rightarrow> NaN
         | c # r \<Rightarrow>
             if c = CHR ''-'' then negate (parse_unsigned r)
             else if c = CHR ''+'' then parse_unsigned r
             else parse_unsigned t)"

text \<open>\<open>String.prototype.includes\<close>: the pattern occurs as a contiguous part.\<close>

fun String_includes :: "string \<Rightarrow> string \<Rightarrow> bool" where
  "String_includes [] pat = (pat = [])"
| "String_includes (c # cs) pat = (prefix pat (c # cs) \<or> String_includes cs pat)"

text \<open>
  \<open>JSON.parse\<close> is the engine's: it is an argument of the handlers that call it, of type
  \<open>parser\<close>, returning the parsed value or the SyntaxError it throws.
\<close>

type_synonym parser = "string \<Rightarrow> thrown + json"

text \<open>A template literal \<open>${error}\<close> (\<open>Error.prototype.toString\<close> for an Error object)
  and the expression \<open>error instanceof Error ? error.message : String(error)\<close>.\<close>

definition template_string :: "thrown \<Rightarrow> string" where
  "template_string e =
     (case e of
        ErrorObj name msg \<Rightarrow>
          (if name = [] then msg else if msg = [] then name else name @ '': '' @ msg)
      | ThrownStr t \<Rightarrow> t)"

definition error_message :: "thrown \<Rightarrow> string" where
  "error_message e = (case e of ErrorObj name msg \<Rightarrow> msg | ThrownStr t \<Rightarrow> t)"

subsection \<open>Reading and writing properties\<close>

definition cannot_read :: "string \<Rightarrow> string \<Rightarrow> thrown" where
  "cannot_read what k =
     ErrorObj ''TypeError''
       (''Cannot read properties of '' @ what @ '' (reading '' @ [CHR 0x27] @ k @ [CHR 0x27] @ '')'')"

text \<open>
  The read \<open>v.k\<close> for the two keys read by name here, \<open>_id\<close> and \<open>$oid\<close>: a TypeError on
  \<open>undefined\<close> and \<open>null\<close>, the property of an object, and \<open>undefined\<close> on every other
  value (no array, string, number or boolean has a property of either name).
\<close>

definition get_prop :: "string \<Rightarrow> json option \<Rightarrow> thrown + json option" where
  "get_prop k v =
     (case v of
        None \<Rightarrow> Inl (cannot_read ''undefined'' k)
      | Some JNull \<Rightarrow> Inl (cannot_read ''null'' k)
      | Some (JObj kvs) \<Rightarrow> Inr (map_of kvs k)
      | Some _ \<Rightarrow> Inr None)"

text \<open>\<open>d._id.$oid\<close>\<close>

definition oid :: "json option \<Rightarrow> thrown + json option" where
  "oid d = (case get_prop ''_id'' d of Inl e \<Rightarrow> Inl e | Inr i \<Rightarrow> get_prop ''$oid'' i)"

text \<open>
  \<open>a === b\<close>. Primitive values are compared by value, and \<open>NaN\<close> equals nothing. Arrays
  and objects are equal when they are one and the same; \<open>same\<close> says whether the two
  operands were read from the same place, and values read from different places are
  different objects, as every value the remote service returns is freshly built.
\<close>

fun strict_eq :: "bool \<Rightarrow> json option \<Rightarrow> json option \<Rightarrow> bool" where
  "strict_eq same None None = True"
| "strict_eq same (Some JNull) (Some JNull) = True"
| "strict_eq same (Some (JBool a)) (Some (JBool b)) = (a = b)"
| "strict_eq same (Some (JNum a)) (Some (JNum b)) = (a \<noteq> NaN \<and> a = b)"
| "strict_eq same (Some (JStr a)) (Some (JStr b)) = (a = b)"
| "strict_eq same (Some (JArr a)) (Some (JArr b)) = same"
| "strict_eq same (Some (JObj a)) (Some (JObj b)) = same"
| "strict_eq same a b = False"

text \<open>The assignment \<open>d[k] = v\<close>: an own property keeps its place, a new one goes last
  (the engine lists a new name that is an array index before the other names; that
  order is not modelled).\<close>

fun set_prop :: "string \<Rightarrow> json \<Rightarrow> doc \<Rightarrow> doc" where
  "set_prop k v [] = [(k, v)]"
| "set_prop k v (p # ps) = (if fst p = k then (k, v) # ps else p # set_prop k v ps)"

subsection \<open>Display and edit seed\<close>

text \<open>
  \<^verbatim>\<open>function formatValue(value: any): string {
    if (value === undefined || value === null) return '';
    return typeof value === 'object' ? JSON.stringify(value) : String(value);
  }\<close>
\<close>

definition formatValue :: "json option \<Rightarrow> string" where
  "formatValue v =
     (case v of
        None \<Rightarrow> []
      | Some j \<Rightarrow>
          if j = JNull then []
          else if typeof v = ''object'' then JSON_stringify 0 j else ToString v)"

text \<open>
  \<^verbatim>\<open>const handleCellClick = (rowIndex: number, header: string, value: any) => {
    if (header === '_id') return;
    editingCell.value = { rowIndex, header };
    editValue.value = typeof value === 'object' ? JSON.stringify(value, null, 2) : String(value);
  };\<close>
\<close>

definition handleCellClick :: "nat \<Rightarrow> string \<Rightarrow> json option \<Rightarrow> grid \<Rightarrow> grid" where
  "handleCellClick rowIndex header v s =
     (if header = ''_id'' then s
      else s\<lparr>editingCell := Some (rowIndex, header),
             editValue :=
               (case v of
                  None \<Rightarrow> ToString v
                | Some j \<Rightarrow> if typeof v = ''object'' then JSON_stringify 2 j else ToString v)\<rparr>)"

subsection \<open>Remote commands\<close>

text \<open>
  A handler that awaits a remote command is one step of the model: the reply of the
  command is an argument, and no other handler runs while the command is pending. The
  outcome holds the state after the handler, the commands it invoked, the timers it set
  and the error it let escape, if any.
\<close>

datatype call =
    FindDocuments string json
  | ListCollections
  | UpdateDocument string "json option" doc
  | DeleteDocument string string

datatype callback = FetchDocuments | FetchCollections

record outcome =
  after :: grid
  calls :: "call list"
  timers :: "(callback \<times> nat) list"
  uncaught :: "thrown option"

definition not_initialized :: string where
  "not_initialized = ''Database connection not initialized''"

text \<open>
  \<open>fetchDocuments\<close> (lines 70 to 97). \<open>reply\<close> is what \<open>find_documents\<close> answers: the
  documents, or the error the call rejects with.
\<close>

definition fetchDocuments :: "parser \<Rightarrow> thrown + doc list \<Rightarrow> grid \<Rightarrow> outcome" where
  "fetchDocuments JSON_parse reply s =
     (let s1 = s\<lparr>isLoading := True, errorMessage := []\<rparr>
      in case JSON_parse (filterQuery s1) of
           Inl error \<Rightarrow>
             \<lparr>after = s1\<lparr>errorMessage := ''Invalid filter JSON: '' @ template_string error,
                         isLoading := False\<rparr>,
              calls = [], timers = [], uncaught = None\<rparr>
         | Inr filter_value \<Rightarrow>
             (case reply of
                Inr docs \<Rightarrow>
                  \<lparr>after = s1\<lparr>documents := docs, currentPage := 1, isLoading := False\<rparr>,
                   calls = [FindDocuments (collectionName s1) filter_value],
                   timers = [], uncaught = None\<rparr>
              | Inl error \<Rightarrow>
                  let message = error_message error
                  in if String_includes message not_initialized
                     then \<lparr>after = s1\<lparr>isLoading := False\<rparr>,
                           calls = [FindDocuments (collectionName s1) filter_value],
                           timers = [(FetchDocuments, 1000)], uncaught = None\<rparr>
                     else \<lparr>after = s1\<lparr>errorMessage := ''Error fetching documents: '' @ message,
                                       documents := [], isLoading := False\<rparr>,
                           calls = [FindDocuments (collectionName s1) filter_value],
                           timers = [], uncaught = None\<rparr>))"

text \<open>
  \<open>fetchCollections\<close> (lines 156 to 170). When it changes \<open>collectionName\<close>, the watcher
  of line 182 runs \<open>fetchDocuments\<close> afterwards, as a step of its own.
\<close>

definition fetchCollections :: "thrown + string list \<Rightarrow> grid \<Rightarrow> outcome" where
  "fetchCollections reply s =
     (case reply of
        Inr names \<Rightarrow>
          \<lparr>after =
             (let s1 = s\<lparr>collectionsList := names\<rparr>
              in if length (collectionsList s1) > 0 \<and> collectionName s1 \<notin> set (collectionsList s1)
                 then s1\<lparr>collectionName := hd (collectionsList s1)\<rparr>
                 else s1),
           calls = [ListCollections], timers = [], uncaught = None\<rparr>
      | Inl error \<Rightarrow>
          let message = error_message error
          in if String_includes message not_initialized
             then \<lparr>after = s, calls = [ListCollections],
                   timers = [(FetchCollections, 1000)], uncaught = None\<rparr>
             else \<lparr>after = s\<lparr>errorMessage := ''Error fetching collections: '' @ message\<rparr>,
                   calls = [ListCollections], timers = [], uncaught = None\<rparr>)"

subsection \<open>Committing an edit\<close>

text \<open>
  The row \<open>paginatedDocuments.value[rowIndex]\<close>, with its position in \<open>documents\<close>;
  \<open>None\<close> when the page has no such row and the read gives \<open>undefined\<close>.
\<close>

definition editedRow :: "nat \<Rightarrow> grid \<Rightarrow> (nat \<times> doc) option" where
  "editedRow rowIndex s =
     (if rowIndex < length (paginatedDocuments s)
      then Some (slice_bound (length (documents s)) (pageStart s) + rowIndex,
                 paginatedDocuments s ! rowIndex)
      else None)"

text \<open>
  \<^verbatim>\<open>documents.value.find(d => d._id.$oid === doc._id.$oid)\<close>

  \<open>findOriginal doc j i ds\<close> runs the search over the documents \<open>ds\<close>, the first of which
  is at position \<open>i\<close>; \<open>doc\<close> is the edited row and \<open>j\<close> its position. The result is the
  position of the first match, \<open>None\<close> when \<open>find\<close> returns \<open>undefined\<close>, or the TypeError
  of a read on \<open>undefined\<close> or \<open>null\<close>.
\<close>

fun findOriginal :: "json option \<Rightarrow> nat option \<Rightarrow> nat \<Rightarrow> doc list \<Rightarrow> thrown + nat option" where
  "findOriginal doc j i [] = Inr None"
| "findOriginal doc j i (d # ds) =
     (case oid (Some (JObj d)) of
        Inl e \<Rightarrow> Inl e
      | Inr a \<Rightarrow>
          (case oid doc of
             Inl e \<Rightarrow> Inl e
           | Inr b \<Rightarrow>
               if strict_eq (j = Some i) a b then Inr (Some i)
               else findOriginal doc j (Suc i) ds))"

text \<open>The variable \<open>doc\<close> of \<open>saveEdit\<close>: the edited row, or \<open>undefined\<close>.\<close>

definition rowDoc :: "nat \<Rightarrow> grid \<Rightarrow> json option" where
  "rowDoc rowIndex s = (case editedRow rowIndex s of None \<Rightarrow> None | Some (j, d) \<Rightarrow> Some (JObj d))"

definition lookupOriginal :: "nat \<Rightarrow> grid \<Rightarrow> thrown + nat option" where
  "lookupOriginal rowIndex s =
     findOriginal (rowDoc rowIndex s) (map_option fst (editedRow rowIndex s)) 0 (documents s)"

text \<open>
  \<^verbatim>\<open>let newValue: any = editValue.value;
  if (typeof originalDoc[header] === 'number') {
    newValue = parseFloat(editValue.value);
  } else if (typeof originalDoc[header] === 'object') {
    newValue = JSON.parse(editValue.value);
  }\<close>
\<close>

definition newValue :: "parser \<Rightarrow> string \<Rightarrow> json option \<Rightarrow> thrown + json" where
  "newValue JSON_parse text original =
     (if typeof original = ''number'' then Inr (JNum (parseFloat text))
      else if typeof original = ''object'' then JSON_parse text
      else Inr (JStr text))"

text \<open>The \<open>catch\<close> and \<open>finally\<close> clauses of \<open>saveEdit\<close>, after the commands \<open>sent\<close>.\<close>

definition saveEdit_catch :: "thrown \<Rightarrow> call list \<Rightarrow> grid \<Rightarrow> outcome" where
  "saveEdit_catch error sent s =
     \<lparr>after = s\<lparr>errorMessage := ''Error updating field: '' @ template_string error,
                 isSaving := False\<rparr>,
      calls = sent, timers = [], uncaught = None\<rparr>"

text \<open>
  \<open>saveEdit\<close> (lines 105 to 140). \<open>reply\<close> is what \<open>update_document\<close> answers. The two
  early returns and a TypeError of the lookup leave the function before its \<open>try\<close>, so
  past its \<open>finally\<close>: \<open>isSaving\<close> stays set. Inside the \<open>try\<close> the new value is computed
  first, then the argument \<open>id: doc._id.$oid\<close> is read, then the command is invoked.
\<close>

definition saveEdit :: "parser \<Rightarrow> thrown + bool \<Rightarrow> grid \<Rightarrow> outcome" where
  "saveEdit JSON_parse reply s =
     (case editingCell s of
        None \<Rightarrow> \<lparr>after = s, calls = [], timers = [], uncaught = None\<rparr>
      | Some (rowIndex, header) \<Rightarrow>
          if isSaving s then \<lparr>after = s, calls = [], timers = [], uncaught = None\<rparr>
          else
            let s1 = s\<lparr>isSaving := True\<rparr>;
                doc = rowDoc rowIndex s1
            in case lookupOriginal rowIndex s1 of
                 Inl e \<Rightarrow> \<lparr>after = s1, calls = [], timers = [], uncaught = Some e\<rparr>
               | Inr None \<Rightarrow> \<lparr>after = s1, calls = [], timers = [], uncaught = None\<rparr>
               | Inr (Some i) \<Rightarrow>
                   let originalDoc = documents s1 ! i
                   in case newValue JSON_parse (editValue s1) (map_of originalDoc header) of
                        Inl error \<Rightarrow> saveEdit_catch error [] s1
                      | Inr v \<Rightarrow>
                          (case oid doc of
                             Inl error \<Rightarrow> saveEdit_catch error [] s1
                           | Inr row_id \<Rightarrow>
                               let update = [(header, v)];
                                   sent = [UpdateDocument (collectionName s1) row_id update]
                               in case reply of
                                    Inl error \<Rightarrow> saveEdit_catch error sent s1
                                  | Inr success \<Rightarrow>
                                      let s2 = (if success
                                                then s1\<lparr>documents :=
                                                       (documents s1)[i := set_prop header v originalDoc]\<rparr>
                                                else s1)
                                      in \<lparr>after = s2\<lparr>editingCell := None, isSaving := False\<rparr>,
                                          calls = sent, timers = [], uncaught = None\<rparr>))"

subsection \<open>Deleting a document\<close>

text \<open>
  \<open>deleteDocument\<close> (lines 142 to 153). \<open>confirmed\<close> is the answer of the confirm dialog,
  \<open>reply\<close> what \<open>delete_document\<close> answers, and \<open>JSON_parse\<close> and \<open>found\<close> serve the
  \<open>fetchDocuments\<close> that a successful deletion starts.
\<close>

definition deleteDocument ::
  "bool \<Rightarrow> thrown + bool \<Rightarrow> parser \<Rightarrow> thrown + doc list \<Rightarrow> string \<Rightarrow> grid \<Rightarrow> outcome" where
  "deleteDocument confirmed reply JSON_parse found doc_id s =
     (if \<not> confirmed then \<lparr>after = s, calls = [], timers = [], uncaught = None\<rparr>
      else
        case reply of
          Inr success \<Rightarrow>
            if success
            then (let r = fetchDocuments JSON_parse found s
                  in r\<lparr>calls := DeleteDocument (collectionName s) doc_id # calls r\<rparr>)
            else \<lparr>after = s, calls = [DeleteDocument (collectionName s) doc_id],
                  timers = [], uncaught = None\<rparr>
        | Inl error \<Rightarrow>
            \<lparr>after = s\<lparr>errorMessage := ''Error deleting document: '' @ template_string error\<rparr>,
             calls = [DeleteDocument (collectionName s) doc_id], timers = [], uncaught = None\<rparr>)"

subsection \<open>The page invariant\<close>

text \<open>The current page lies between 1 and the page count, or is 1 when there is no
  page.\<close>

definition page_in_range :: "grid \<Rightarrow> bool" where
  "page_in_range s = (1 \<le> currentPage s \<and> currentPage s \<le> max 1 (totalPages s))"

subsection \<open>A sample state\<close>

text \<open>Two documents of different shape in the collection \<open>users\<close>, as \<open>find_documents\<close>
  returns them, on the initial state of the component.\<close>

definition sample_A :: doc where
  "sample_A =
     [(''_id'', JObj [(''$oid'', JStr ''a1'')]), (''name'', JStr ''Bob''), (''age'', JNum (Fin 30))]"

definition sample_B :: doc where
  "sample_B =
     [(''_id'', JObj [(''$oid'', JStr ''b2'')]), (''age'', JNum (Fin 5)), (''tags'', JArr [JStr ''x''])]"

definition sample_grid :: grid where
  "sample_grid = initial_grid\<lparr>documents := [sample_A, sample_B]\<rparr>"

text \<open>What the engine's \<open>JSON.parse\<close> answers on the texts the examples use: the empty
  object for \<open>{}\<close>, a SyntaxError for the unfinished \<open>[\<close>.\<close>

definition sample_parse :: parser where
  "sample_parse t =
     (if t = ''{}'' then Inr (JObj [])
      else Inl (ErrorObj ''SyntaxError'' ''Unexpected end of JSON input''))"

section \<open>Properties\<close>

subsection \<open>Evaluation on the sample state\<close>

lemmas sample_defs = sample_grid_def sample_A_def sample_B_def sample_parse_def initial_grid_def

lemmas parse_defs = parseFloat_def parse_unsigned_def parse_exponent_def digits_value_def
  digit_value_def is_digit_def is_space_def negate_def

lemma JSON_stringify_0: "JSON_stringify 0 v = stringify [] [] v"
  by (simp add: JSON_stringify_def)

lemma JSON_stringify_2: "JSON_stringify 2 v = stringify ''  '' [] v"
  by (simp add: JSON_stringify_def numeral_2_eq_2)

lemmas js_defs = typeof_def ToString_def JSON_stringify_0 JSON_stringify_2 quote_def escape_char_def
  Number_toString_def pos_to_string_def digit_char_def nat_to_string.simps

text \<open>The lookup of the edited row reads the documents and the page only.\<close>

lemma editedRow_isSaving [simp]:
  "editedRow rowIndex (s\<lparr>isSaving := b\<rparr>) = editedRow rowIndex s"
  by (simp add: editedRow_def paginatedDocuments_def pageStart_def)

lemma rowDoc_isSaving [simp]:
  "rowDoc rowIndex (s\<lparr>isSaving := b\<rparr>) = rowDoc rowIndex s"
  by (simp add: rowDoc_def)

lemma lookupOriginal_isSaving [simp]:
  "lookupOriginal rowIndex (s\<lparr>isSaving := b\<rparr>) = lookupOriginal rowIndex s"
  by (simp add: lookupOriginal_def)

lemma lookupOriginal_editing [simp]:
  "lookupOriginal rowIndex (s\<lparr>editingCell := c, editValue := t\<rparr>) = lookupOriginal rowIndex s"
  by (simp add: lookupOriginal_def rowDoc_def editedRow_def paginatedDocuments_def pageStart_def)

text \<open>A search that finds a document has read \<open>doc._id.$oid\<close> without an error.\<close>

lemma findOriginal_found_oid:
  "findOriginal doc j k ds = Inr (Some i) \<Longrightarrow> \<exists>x. oid doc = Inr x"
  by (induction ds arbitrary: k) (auto split: sum.splits if_splits)

lemma lookupOriginal_found_oid:
  "lookupOriginal rowIndex s = Inr (Some i) \<Longrightarrow> \<exists>x. oid (rowDoc rowIndex s) = Inr x"
  unfolding lookupOriginal_def by (rule findOriginal_found_oid)

lemma sample_lookup_0: "lookupOriginal 0 sample_grid = Inr (Some 0)"
  by code_simp

lemma sample_lookup_1: "lookupOriginal 1 sample_grid = Inr (Some 1)"
  by code_simp

lemma empty_lookup: "lookupOriginal 0 initial_grid = Inr None"
  by code_simp

lemma stale_lookup: "lookupOriginal 5 sample_grid = Inl (cannot_read ''undefined'' ''_id'')"
  by code_simp

lemma sample_not_saving: "\<not> isSaving (sample_grid\<lparr>editingCell := c, editValue := t\<rparr>)"
  by (simp add: sample_grid_def initial_grid_def)

subsection \<open>Coercion of an edited number\<close>

lemma newValue_number:
  "typeof original = ''number'' \<Longrightarrow>
   newValue JSON_parse text original = Inr (JNum (parseFloat text))"
  by (simp add: newValue_def)

text \<open>
  C1: on a field whose stored value is a number the commit parses the text with
  \<open>parseFloat\<close> and sends a number: reference 30 and text \<open>31\<close> send \<open>{age: 31}\<close>. The
  claim goes on to say that a text that is not numeric fails as an input-validation
  error. Here the code differs: \<open>parseFloat\<close> answers \<open>NaN\<close> and throws nothing, so with
  the text \<open>abc\<close> the commit sends \<open>{age: NaN}\<close>, sets no error message, and on success
  stores \<open>NaN\<close> in the local document.
\<close>

theorem saveEdit_sends_NaN:
  "newValue JSON_parse ''31'' (Some (JNum (Fin 30))) = Inr (JNum (Fin 31)) \<and>
   newValue JSON_parse ''abc'' (Some (JNum (Fin 30))) = Inr (JNum NaN) \<and>
   calls (saveEdit sample_parse (Inr True)
      (sample_grid\<lparr>editingCell := Some (0, ''age''), editValue := ''31''\<rparr>))
     = [UpdateDocument ''users'' (Some (JStr ''a1'')) [(''age'', JNum (Fin 31))]] \<and>
   calls (saveEdit sample_parse (Inr True)
      (sample_grid\<lparr>editingCell := Some (0, ''age''), editValue := ''abc''\<rparr>))
     = [UpdateDocument ''users'' (Some (JStr ''a1'')) [(''age'', JNum NaN)]] \<and>
   errorMessage (after (saveEdit sample_parse (Inr True)
      (sample_grid\<lparr>editingCell := Some (0, ''age''), editValue := ''abc''\<rparr>))) = [] \<and>
   uncaught (saveEdit sample_parse (Inr True)
      (sample_grid\<lparr>editingCell := Some (0, ''age''), editValue := ''abc''\<rparr>)) = None \<and>
   map_of (documents (after (saveEdit sample_parse (Inr True)
      (sample_grid\<lparr>editingCell := Some (0, ''age''), editValue := ''abc''\<rparr>))) ! 0) ''age''
     = Some (JNum NaN)"
  apply (intro conjI)
        apply (simp add: newValue_def typeof_def parse_defs)
       apply (simp add: newValue_def typeof_def parse_defs)
      apply code_simp+
  done

subsection \<open>Page count\<close>

lemma totalPages_bounds:
  assumes "0 < pageSize s"
  shows "int (pageSize s) * (totalPages s - 1) < int (length (documents s))"
    and "int (length (documents s)) \<le> int (pageSize s) * totalPages s"
proof -
  define q where "q = rat_of_nat (length (documents s)) / rat_of_nat (pageSize s)"
  have d: "0 < rat_of_nat (pageSize s)" using assms by simp
  have n: "rat_of_nat (length (documents s)) = q * rat_of_nat (pageSize s)"
    using d by (simp add: q_def)
  have k: "totalPages s = \<lceil>q\<rceil>" by (simp add: totalPages_def q_def)
  have "rat_of_int (\<lceil>q\<rceil> - 1) < q" by linarith
  then have "rat_of_int (\<lceil>q\<rceil> - 1) * rat_of_nat (pageSize s) < q * rat_of_nat (pageSize s)"
    using d by (rule mult_strict_right_mono)
  then have "rat_of_int (int (pageSize s) * (totalPages s - 1)) < rat_of_int (int (length (documents s)))"
    using n k by (simp add: mult.commute)
  then show "int (pageSize s) * (totalPages s - 1) < int (length (documents s))"
    by (simp only: of_int_less_iff)
  have "q \<le> rat_of_int \<lceil>q\<rceil>" by linarith
  then have "q * rat_of_nat (pageSize s) \<le> rat_of_int \<lceil>q\<rceil> * rat_of_nat (pageSize s)"
    using d by (simp add: mult_right_mono)
  then have "rat_of_int (int (length (documents s))) \<le> rat_of_int (int (pageSize s) * totalPages s)"
    using n k by (simp add: mult.commute)
  then show "int (length (documents s)) \<le> int (pageSize s) * totalPages s"
    by (simp only: of_int_le_iff)
qed

text \<open>
  C2 (as stated): the page count is \<open>max(1, ceil(|R| / s))\<close>, so 1 for an empty
  collection. On the initial state (no documents, page size 10) \<open>totalPages\<close> is 0 while
  the claimed formula gives 1.
\<close>

theorem totalPages_empty_counterexample:
  "totalPages initial_grid = 0 \<and>
   max 1 \<lceil>rat_of_nat (length (documents initial_grid)) / rat_of_nat (pageSize initial_grid)\<rceil>
     = (1::int)"
  by (simp add: totalPages_def initial_grid_def)

text \<open>
  C2 (amended): for a page size \<open>s > 0\<close> the page count is \<open>ceil(|R| / s)\<close>, the least
  \<open>k\<close> with \<open>|R| \<le> s * k\<close>; it is 0 for an empty collection and equals
  \<open>max(1, ceil(|R| / s))\<close> for every non-empty one.
\<close>

theorem totalPages_ceiling:
  assumes "0 < pageSize s"
  shows "int (pageSize s) * (totalPages s - 1) < int (length (documents s)) \<and>
         int (length (documents s)) \<le> int (pageSize s) * totalPages s \<and>
         totalPages s =
           (if documents s = [] then 0
            else max 1 \<lceil>rat_of_nat (length (documents s)) / rat_of_nat (pageSize s)\<rceil>)"
proof -
  have "1 \<le> totalPages s" if "documents s \<noteq> []"
  proof (rule ccontr)
    assume "\<not> 1 \<le> totalPages s"
    then have "totalPages s \<le> 0" by simp
    then have "int (pageSize s) * totalPages s \<le> 0"
      by (simp add: mult_nonneg_nonpos)
    with totalPages_bounds(2)[OF assms] have "int (length (documents s)) \<le> 0" by linarith
    then have "length (documents s) = 0" by simp
    with that show False by simp
  qed
  then have "totalPages s =
      (if documents s = [] then 0
       else max 1 \<lceil>rat_of_nat (length (documents s)) / rat_of_nat (pageSize s)\<rceil>)"
    by (auto simp: totalPages_def)
  with totalPages_bounds[OF assms] show ?thesis by simp
qed

theorem totalPages_ceiling_witness:
  "0 < pageSize (initial_grid\<lparr>documents := [[], [], []], pageSize := 2\<rparr>) \<and>
   totalPages (initial_grid\<lparr>documents := [[], [], []], pageSize := 2\<rparr>) = 2 \<and>
   2 * (2 - 1) < int (length [[], [], []::doc]) \<and> int (length [[], [], []::doc]) \<le> 2 * 2"
  using totalPages_ceiling [of "initial_grid\<lparr>documents := [[], [], []], pageSize := 2\<rparr>"]
  by (simp add: initial_grid_def)

subsection \<open>Current page\<close>

lemma totalPages_currentPage [simp]: "totalPages (s\<lparr>currentPage := p\<rparr>) = totalPages s"
  by (simp add: totalPages_def)

text \<open>
  C3 (as stated): the current page stays within 1 and \<open>max(1, ceil(total/size))\<close> after
  every operation, out-of-range requests being clamped. With 30 documents, 10 to the
  page, on page 3 of 3: \<open>onPageChange\<close> stores the page 7 it is given, and choosing 100
  rows per page keeps the current page 3 when one page is left.
\<close>

theorem onPageChange_counterexample:
  "page_in_range (initial_grid\<lparr>documents := replicate 30 sample_A, currentPage := 3\<rparr>) \<and>
   \<not> page_in_range
       (onPageChange 7 (initial_grid\<lparr>documents := replicate 30 sample_A, currentPage := 3\<rparr>)) \<and>
   \<not> page_in_range
       (selectPageSize 100 (initial_grid\<lparr>documents := replicate 30 sample_A, currentPage := 3\<rparr>))"
  by (simp add: page_in_range_def onPageChange_def selectPageSize_def totalPages_def initial_grid_def)

text \<open>
  C3 (amended): while the pagination controls are shown (more than one page, positive
  page size) and the current page is in range, each of first, previous, next and last
  leaves it in range; \<open>onPageChange\<close>, on any state, sets the current page to the page
  requested, without clamping; and on any state a fetch that succeeds sets the current
  page to 1, which is in range.
\<close>

theorem page_range_preserved:
  "(0 < pageSize s \<and> 1 < totalPages s \<and> page_in_range s \<longrightarrow>
      page_in_range (paginationFirst s) \<and> page_in_range (paginationPrev s) \<and>
      page_in_range (paginationNext s) \<and> page_in_range (paginationLast s)) \<and>
   currentPage (onPageChange page s) = page \<and>
   (JSON_parse (filterQuery s) = Inr f \<longrightarrow>
      currentPage (after (fetchDocuments JSON_parse (Inr docs) s)) = 1 \<and>
      page_in_range (after (fetchDocuments JSON_parse (Inr docs) s)))"
  by (auto simp: page_in_range_def paginationFirst_def paginationPrev_def paginationNext_def
      paginationLast_def onPageChange_def fetchDocuments_def)

theorem page_range_preserved_witness:
  "page_in_range (paginationNext (sample_grid\<lparr>pageSize := 1\<rparr>)) \<and>
   currentPage (paginationNext (sample_grid\<lparr>pageSize := 1\<rparr>)) = 2 \<and>
   currentPage (paginationLast (sample_grid\<lparr>pageSize := 1\<rparr>)) = 2 \<and>
   currentPage (paginationPrev (sample_grid\<lparr>pageSize := 1\<rparr>)) = 1 \<and>
   currentPage (onPageChange 7 initial_grid) = 7 \<and>
   totalPages initial_grid = 0 \<and>
   currentPage (after (fetchDocuments sample_parse (Inr [sample_A, sample_B]) initial_grid)) = 1 \<and>
   page_in_range (after (fetchDocuments sample_parse (Inr [sample_A, sample_B]) initial_grid)) \<and>
   currentPage (after (fetchDocuments sample_parse (Inr [])
      (sample_grid\<lparr>pageSize := 1, currentPage := 2\<rparr>))) = 1"
proof -
  let ?s = "sample_grid\<lparr>pageSize := 1\<rparr>"
  have h: "0 < pageSize ?s \<and> 1 < totalPages ?s \<and> page_in_range ?s"
    by (simp add: sample_defs page_in_range_def totalPages_def)
  have p: "sample_parse (filterQuery initial_grid) = Inr (JObj [])"
    "sample_parse (filterQuery (sample_grid\<lparr>pageSize := 1, currentPage := 2\<rparr>)) = Inr (JObj [])"
    by (simp_all add: sample_defs)
  have t: "totalPages initial_grid = 0"
    by (simp add: totalPages_def initial_grid_def)
  from h p t
    page_range_preserved [where s = ?s]
    page_range_preserved [where s = initial_grid and page = 7 and JSON_parse = sample_parse
      and f = "JObj []" and docs = "[sample_A, sample_B]"]
    page_range_preserved [where s = "sample_grid\<lparr>pageSize := 1, currentPage := 2\<rparr>"
      and JSON_parse = sample_parse and f = "JObj []" and docs = "[]"]
  show ?thesis
    by (simp add: sample_defs totalPages_def paginationNext_def paginationLast_def
        paginationPrev_def)
qed

subsection \<open>Table headers\<close>

lemma foldl_nested_concat:
  "foldl (\<lambda>h d. foldl f h (g d)) a ds = foldl f a (concat (map g ds))"
  by (induction ds arbitrary: a) simp_all

lemma tableHeaders_concat:
  "tableHeaders s = foldl Set_add [''_id''] (concat (map Object_keys (documents s)))"
  by (simp add: tableHeaders_def foldl_nested_concat Set_add_def)

lemma firstIndex_append_mem:
  "a \<in> set ks \<Longrightarrow> firstIndex (ks @ [k]) a = firstIndex ks a"
  by (simp add: firstIndex_def takeWhile_append1)

lemma firstIndex_less_length:
  "a \<in> set ks \<Longrightarrow> firstIndex ks a < length ks"
  unfolding firstIndex_def by (induction ks) auto

lemma firstIndex_append_new:
  "k \<notin> set ks \<Longrightarrow> firstIndex (ks @ [k]) k = length ks"
  unfolding firstIndex_def by (induction ks) auto

text \<open>Adding a sequence of names to a set appends the new ones, each once, in the order
  in which they first occur.\<close>

lemma Set_add_all:
  assumes "distinct h"
  shows "\<exists>r. foldl Set_add h ks = h @ r \<and> distinct (h @ r) \<and> set r = set ks - set h \<and>
             sorted_wrt (\<lambda>a b. firstIndex ks a < firstIndex ks b) r"
proof (induction ks rule: rev_induct)
  case Nil
  with assms show ?case by simp
next
  case (snoc k ks)
  then obtain r where r: "foldl Set_add h ks = h @ r" "distinct (h @ r)" "set r = set ks - set h"
    "sorted_wrt (\<lambda>a b. firstIndex ks a < firstIndex ks b) r" by blast
  have mono: "sorted_wrt (\<lambda>a b. firstIndex (ks @ [k]) a < firstIndex (ks @ [k]) b) r"
    using r(3,4) by (auto simp: firstIndex_append_mem elim!: sorted_wrt_mono_rel[rotated])
  show ?case
  proof (cases "k \<in> set (h @ r)")
    case True
    then have "foldl Set_add h (ks @ [k]) = h @ r" using r(1) by (simp add: Set_add_def)
    moreover have "set r = set (ks @ [k]) - set h" using True r(3) by auto
    ultimately show ?thesis using r(2) mono by blast
  next
    case False
    then have k: "k \<notin> set ks" "k \<notin> set h" "k \<notin> set r" using r(3) by auto
    have "foldl Set_add h (ks @ [k]) = h @ (r @ [k])" using False r(1) by (simp add: Set_add_def)
    moreover have "distinct (h @ (r @ [k]))" using r(2) k by auto
    moreover have "set (r @ [k]) = set (ks @ [k]) - set h" using r(3) k by auto
    moreover have "sorted_wrt (\<lambda>a b. firstIndex (ks @ [k]) a < firstIndex (ks @ [k]) b) (r @ [k])"
      using mono r(3) k(1)
      by (auto simp: sorted_wrt_append firstIndex_append_new firstIndex_append_mem firstIndex_less_length)
    ultimately show ?thesis by blast
  qed
qed

lemma Set_add_known: "set ks \<subseteq> set h \<Longrightarrow> foldl Set_add h ks = h"
  by (induction ks) (auto simp: Set_add_def)

lemma Set_add_all_set: "set (foldl Set_add h ks) = set h \<union> set ks"
  by (induction ks arbitrary: h) (auto simp: Set_add_def)

text \<open>
  C4: for every sequence of documents the headers start with \<open>_id\<close>, hold no name twice,
  hold exactly \<open>_id\<close> and the field names of the documents, list the names after \<open>_id\<close> in
  the order of their first occurrence over the documents, and are the same when the
  batch is unioned twice over.
\<close>

theorem tableHeaders_union:
  "tableHeaders s = ''_id'' # tl (tableHeaders s) \<and>
   distinct (tableHeaders s) \<and>
   set (tableHeaders s) = insert ''_id'' (set (concat (map Object_keys (documents s)))) \<and>
   sorted_wrt (\<lambda>a b. firstIndex (concat (map Object_keys (documents s))) a
                    < firstIndex (concat (map Object_keys (documents s))) b)
     (tl (tableHeaders s)) \<and>
   tableHeaders (s\<lparr>documents := documents s @ documents s\<rparr>) = tableHeaders s"
proof -
  define ks where "ks = concat (map Object_keys (documents s))"
  obtain r where r: "foldl Set_add [''_id''] ks = [''_id''] @ r" "distinct ([''_id''] @ r)"
    "set r = set ks - set [''_id'']" "sorted_wrt (\<lambda>a b. firstIndex ks a < firstIndex ks b) r"
    using Set_add_all[of "[''_id'']" ks] by auto
  have h: "tableHeaders s = ''_id'' # r" using r(1) by (simp add: tableHeaders_concat ks_def)
  have "tableHeaders (s\<lparr>documents := documents s @ documents s\<rparr>)
      = foldl Set_add (foldl Set_add [''_id''] ks) ks"
    by (simp add: tableHeaders_concat ks_def)
  also have "\<dots> = foldl Set_add [''_id''] ks"
    by (rule Set_add_known) (auto simp: Set_add_all_set)
  finally have idem: "tableHeaders (s\<lparr>documents := documents s @ documents s\<rparr>) = tableHeaders s"
    by (simp add: tableHeaders_concat ks_def)
  have "set (tableHeaders s) = insert ''_id'' (set ks)" using h r(3) by auto
  with h r(2,4) idem show ?thesis unfolding ks_def by simp
qed

theorem tableHeaders_union_witness:
  "tableHeaders sample_grid = [''_id'', ''name'', ''age'', ''tags''] \<and>
   distinct (tableHeaders sample_grid) \<and>
   tableHeaders (sample_grid\<lparr>documents := documents sample_grid @ documents sample_grid\<rparr>)
     = [''_id'', ''name'', ''age'', ''tags'']"
  using tableHeaders_union [of sample_grid]
  by (simp add: tableHeaders_def Set_add_def Object_keys_def sample_grid_def sample_A_def
      sample_B_def initial_grid_def)

subsection \<open>Failures of the loader\<close>

lemma not_initialized_includes:
  "String_includes ''Database connection not initialized'' not_initialized"
  by (simp add: not_initialized_def)

lemma refused_excludes:
  "\<not> String_includes ''connection refused'' not_initialized"
  by (simp add: not_initialized_def)

text \<open>
  C5: when the remote call of a loader fails with an error \<open>e\<close> (for \<open>fetchDocuments\<close> the
  filter has parsed, so the call is made): if the message of \<open>e\<close> contains
  \<open>Database connection not initialized\<close>, the loader sets one timer of 1000 ms for
  itself and no error message (\<open>fetchDocuments\<close> leaves the message empty and its
  documents, collection name and filter as they were; \<open>fetchCollections\<close> changes
  nothing); otherwise no timer is set, \<open>fetchDocuments\<close> shows the error and clears the
  documents, and \<open>fetchCollections\<close> shows the error and keeps the collection list.
\<close>

theorem loader_failure:
  assumes "JSON_parse (filterQuery s) = Inr f"
  shows "calls (fetchDocuments JSON_parse (Inl e) s) = [FindDocuments (collectionName s) f] \<and>
         calls (fetchCollections (Inl e) s) = [ListCollections] \<and>
         (if String_includes (error_message e) not_initialized
          then timers (fetchDocuments JSON_parse (Inl e) s) = [(FetchDocuments, 1000)] \<and>
               errorMessage (after (fetchDocuments JSON_parse (Inl e) s)) = [] \<and>
               documents (after (fetchDocuments JSON_parse (Inl e) s)) = documents s \<and>
               collectionName (after (fetchDocuments JSON_parse (Inl e) s)) = collectionName s \<and>
               filterQuery (after (fetchDocuments JSON_parse (Inl e) s)) = filterQuery s \<and>
               timers (fetchCollections (Inl e) s) = [(FetchCollections, 1000)] \<and>
               after (fetchCollections (Inl e) s) = s
          else timers (fetchDocuments JSON_parse (Inl e) s) = [] \<and>
               errorMessage (after (fetchDocuments JSON_parse (Inl e) s))
                 = ''Error fetching documents: '' @ error_message e \<and>
               documents (after (fetchDocuments JSON_parse (Inl e) s)) = [] \<and>
               timers (fetchCollections (Inl e) s) = [] \<and>
               errorMessage (after (fetchCollections (Inl e) s))
                 = ''Error fetching collections: '' @ error_message e \<and>
               collectionsList (after (fetchCollections (Inl e) s)) = collectionsList s)"
  using assms by (simp add: fetchDocuments_def fetchCollections_def Let_def)

theorem loader_failure_witness:
  "sample_parse (filterQuery sample_grid) = Inr (JObj []) \<and>
   timers (fetchDocuments sample_parse (Inl (ThrownStr ''Database connection not initialized'')) sample_grid)
     = [(FetchDocuments, 1000)] \<and>
   errorMessage (after (fetchDocuments sample_parse
       (Inl (ThrownStr ''Database connection not initialized'')) sample_grid)) = [] \<and>
   errorMessage (after (fetchDocuments sample_parse (Inl (ThrownStr ''connection refused'')) sample_grid))
     = ''Error fetching documents: connection refused'' \<and>
   documents (after (fetchDocuments sample_parse (Inl (ThrownStr ''connection refused'')) sample_grid)) = [] \<and>
   errorMessage (after (fetchCollections (Inl (ThrownStr ''connection refused'')) sample_grid))
     = ''Error fetching collections: connection refused''"
proof -
  have p: "sample_parse (filterQuery sample_grid) = Inr (JObj [])"
    by (simp add: sample_defs)
  show ?thesis
    using p
      loader_failure [of sample_parse sample_grid "JObj []"
        "ThrownStr ''Database connection not initialized''"]
      loader_failure [of sample_parse sample_grid "JObj []" "ThrownStr ''connection refused''"]
    by (simp add: error_message_def not_initialized_includes refused_excludes
        del: String_includes.simps)
qed

subsection \<open>A commit that fails\<close>

text \<open>
  What holds of a commit that throws: when the commit of an active edit reaches the
  authoritative document and \<open>JSON.parse\<close> throws, or the new value is computed and the
  remote update rejects, the message \<open>Error updating field: ...\<close> with the error is
  shown and the documents are as before (a throw of \<open>JSON.parse\<close> also sends nothing);
  and whenever a commit changes the documents, the remote update has answered success.
\<close>

lemma saveEdit_throw_unapplied:
  "(editingCell s = Some (rowIndex, header) \<and> \<not> isSaving s \<and>
    lookupOriginal rowIndex s = Inr (Some i) \<and>
    newValue JSON_parse (editValue s) (map_of (documents s ! i) header) = Inl e \<longrightarrow>
      errorMessage (after (saveEdit JSON_parse reply s)) = ''Error updating field: '' @ template_string e \<and>
      documents (after (saveEdit JSON_parse reply s)) = documents s \<and>
      calls (saveEdit JSON_parse reply s) = []) \<and>
   (editingCell s = Some (rowIndex, header) \<and> \<not> isSaving s \<and>
    lookupOriginal rowIndex s = Inr (Some i) \<and>
    newValue JSON_parse (editValue s) (map_of (documents s ! i) header) = Inr v \<and>
    reply = Inl e \<longrightarrow>
      errorMessage (after (saveEdit JSON_parse reply s)) = ''Error updating field: '' @ template_string e \<and>
      documents (after (saveEdit JSON_parse reply s)) = documents s) \<and>
   (documents (after (saveEdit JSON_parse reply s)) \<noteq> documents s \<longrightarrow> reply = Inr True)"
proof (intro conjI impI)
  assume "editingCell s = Some (rowIndex, header) \<and> \<not> isSaving s \<and>
    lookupOriginal rowIndex s = Inr (Some i) \<and>
    newValue JSON_parse (editValue s) (map_of (documents s ! i) header) = Inl e"
  then have r: "saveEdit JSON_parse reply s =
      \<lparr>after = s\<lparr>isSaving := True, errorMessage := ''Error updating field: '' @ template_string e,
                  isSaving := False\<rparr>,
       calls = [], timers = [], uncaught = None\<rparr>"
    by (simp add: saveEdit_def saveEdit_catch_def)
  show "errorMessage (after (saveEdit JSON_parse reply s)) = ''Error updating field: '' @ template_string e"
    and "documents (after (saveEdit JSON_parse reply s)) = documents s"
    and "calls (saveEdit JSON_parse reply s) = []"
    by (simp_all add: r)
next
  assume a: "editingCell s = Some (rowIndex, header) \<and> \<not> isSaving s \<and>
    lookupOriginal rowIndex s = Inr (Some i) \<and>
    newValue JSON_parse (editValue s) (map_of (documents s ! i) header) = Inr v \<and> reply = Inl e"
  then obtain x where "oid (rowDoc rowIndex s) = Inr x"
    using lookupOriginal_found_oid by blast
  with a have r: "after (saveEdit JSON_parse reply s) =
      s\<lparr>isSaving := True, errorMessage := ''Error updating field: '' @ template_string e,
        isSaving := False\<rparr>"
    by (simp add: saveEdit_def saveEdit_catch_def Let_def)
  show "errorMessage (after (saveEdit JSON_parse reply s)) = ''Error updating field: '' @ template_string e"
    and "documents (after (saveEdit JSON_parse reply s)) = documents s"
    by (simp_all add: r)
next
  assume "documents (after (saveEdit JSON_parse reply s)) \<noteq> documents s"
  then show "reply = Inr True"
    by (auto simp: saveEdit_def saveEdit_catch_def Let_def
        split: option.splits sum.splits prod.splits if_splits)
qed

lemma saveEdit_throw_unapplied_example:
  "errorMessage (after (saveEdit sample_parse (Inr True)
       (sample_grid\<lparr>editingCell := Some (1, ''tags''), editValue := ''[''\<rparr>)))
     = ''Error updating field: SyntaxError: Unexpected end of JSON input'' \<and>
   documents (after (saveEdit sample_parse (Inr True)
       (sample_grid\<lparr>editingCell := Some (1, ''tags''), editValue := ''[''\<rparr>))) = [sample_A, sample_B] \<and>
   calls (saveEdit sample_parse (Inr True)
       (sample_grid\<lparr>editingCell := Some (1, ''tags''), editValue := ''[''\<rparr>)) = [] \<and>
   errorMessage (after (saveEdit sample_parse (Inl (ThrownStr ''update failed''))
       (sample_grid\<lparr>editingCell := Some (0, ''age''), editValue := ''31''\<rparr>)))
     = ''Error updating field: update failed'' \<and>
   documents (after (saveEdit sample_parse (Inl (ThrownStr ''update failed''))
       (sample_grid\<lparr>editingCell := Some (0, ''age''), editValue := ''31''\<rparr>))) = [sample_A, sample_B] \<and>
   documents (after (saveEdit sample_parse (Inr True)
       (sample_grid\<lparr>editingCell := Some (0, ''age''), editValue := ''31''\<rparr>))) \<noteq> [sample_A, sample_B]"
proof -
  let ?s = "sample_grid\<lparr>editingCell := Some (1, ''tags''), editValue := ''[''\<rparr>"
  let ?t = "sample_grid\<lparr>editingCell := Some (0, ''age''), editValue := ''31''\<rparr>"
  let ?e = "ErrorObj ''SyntaxError'' ''Unexpected end of JSON input''"
  have d: "documents ?s = [sample_A, sample_B]" "documents ?t = [sample_A, sample_B]"
    by (simp_all add: sample_grid_def)
  have s: "editingCell ?s = Some (1, ''tags'') \<and> \<not> isSaving ?s \<and>
      lookupOriginal 1 ?s = Inr (Some 1) \<and>
      newValue sample_parse (editValue ?s) (map_of (documents ?s ! 1) ''tags'') = Inl ?e"
    by (simp add: sample_lookup_1 sample_not_saving) code_simp
  have t: "editingCell ?t = Some (0, ''age'') \<and> \<not> isSaving ?t \<and>
      lookupOriginal 0 ?t = Inr (Some 0) \<and>
      newValue sample_parse (editValue ?t) (map_of (documents ?t ! 0) ''age'') = Inr (JNum (Fin 31)) \<and>
      (Inl (ThrownStr ''update failed'') :: thrown + bool) = Inl (ThrownStr ''update failed'')"
    by (simp add: sample_lookup_0 sample_not_saving) code_simp
  have c: "documents (after (saveEdit sample_parse (Inr True) ?t)) \<noteq> [sample_A, sample_B]"
    by code_simp
  from s t c d
    saveEdit_throw_unapplied [of ?s 1 "''tags''" 1 sample_parse ?e "Inr True"]
    saveEdit_throw_unapplied [of ?t 0 "''age''" 0 sample_parse "ThrownStr ''update failed''"
      "Inl (ThrownStr ''update failed'')" "JNum (Fin 31)"]
  show ?thesis
    by (simp add: template_string_def)
qed

text \<open>The only coercion that throws is the \<open>JSON.parse\<close> of a field that holds \<open>null\<close>, an
  object or an array: on a field that holds a number every text is coerced to a number.\<close>

lemma newValue_throws_object:
  "newValue JSON_parse text original = Inl e \<Longrightarrow> typeof original = ''object''"
  by (auto simp: newValue_def split: if_splits)

text \<open>
  C6: a commit whose coercion fails shows the error and leaves the authoritative
  document as it was. Here the code differs, by the defect of C1: on the field \<open>age\<close>,
  which holds the number 30, the text \<open>abc\<close> is no number, yet \<open>parseFloat\<close> answers
  \<open>NaN\<close> and nothing is thrown. The commit invokes the update, and when the update
  answers success no error message is set, the document holds \<open>NaN\<close> for \<open>age\<close>, and
  the edit session is closed.
\<close>

theorem saveEdit_applies_NaN:
  "parseFloat ''abc'' = NaN \<and>
   newValue sample_parse ''abc'' (map_of sample_A ''age'') = Inr (JNum NaN) \<and>
   errorMessage (after (saveEdit sample_parse (Inr True)
      (sample_grid\<lparr>editingCell := Some (0, ''age''), editValue := ''abc''\<rparr>))) = [] \<and>
   documents (after (saveEdit sample_parse (Inr True)
      (sample_grid\<lparr>editingCell := Some (0, ''age''), editValue := ''abc''\<rparr>)))
     = [[(''_id'', JObj [(''$oid'', JStr ''a1'')]), (''name'', JStr ''Bob''), (''age'', JNum NaN)],
        sample_B] \<and>
   documents (sample_grid\<lparr>editingCell := Some (0, ''age''), editValue := ''abc''\<rparr>)
     = [[(''_id'', JObj [(''$oid'', JStr ''a1'')]), (''name'', JStr ''Bob''), (''age'', JNum (Fin 30))],
        sample_B] \<and>
   editingCell (after (saveEdit sample_parse (Inr True)
      (sample_grid\<lparr>editingCell := Some (0, ''age''), editValue := ''abc''\<rparr>))) = None"
  by code_simp

subsection \<open>The edit session after a commit\<close>

text \<open>
  C7 (as stated): after every commit, failed ones included, no cell is being edited. A
  commit whose remote update rejects leaves the cell (0, age) in editing, and so does
  one whose text (an unfinished array for the field \<open>tags\<close>) does not parse.
\<close>

theorem saveEdit_session_counterexample:
  "editingCell (after (saveEdit sample_parse (Inl (ThrownStr ''update failed''))
       (sample_grid\<lparr>editingCell := Some (0, ''age''), editValue := ''31''\<rparr>))) = Some (0, ''age'') \<and>
   editingCell (after (saveEdit sample_parse (Inr True)
       (sample_grid\<lparr>editingCell := Some (1, ''tags''), editValue := ''[''\<rparr>))) = Some (1, ''tags'')"
  by code_simp

text \<open>
  C7 (amended): a commit of an active edit session that reaches the authoritative
  document ends the session (no cell is being edited) when the remote update answers,
  with success or without; when the coercion throws or the remote update rejects, the
  cell stays in editing. In both cases the commit is no longer in progress.
\<close>

theorem saveEdit_session:
  assumes "editingCell s = Some (rowIndex, header)" and "\<not> isSaving s"
    and "lookupOriginal rowIndex s = Inr (Some i)"
  shows "editingCell (after (saveEdit JSON_parse reply s)) =
           (if isl (newValue JSON_parse (editValue s) (map_of (documents s ! i) header)) \<or> isl reply
            then Some (rowIndex, header) else None) \<and>
         \<not> isSaving (after (saveEdit JSON_parse reply s))"
proof -
  obtain x where "oid (rowDoc rowIndex s) = Inr x"
    using assms(3) lookupOriginal_found_oid by blast
  with assms show ?thesis
    by (cases "newValue JSON_parse (editValue s) (map_of (documents s ! i) header)"; cases reply)
      (simp_all add: saveEdit_def saveEdit_catch_def Let_def)
qed

theorem saveEdit_session_witness:
  "editingCell (after (saveEdit sample_parse (Inr True)
       (sample_grid\<lparr>editingCell := Some (0, ''age''), editValue := ''31''\<rparr>))) = None \<and>
   editingCell (after (saveEdit sample_parse (Inl (ThrownStr ''update failed''))
       (sample_grid\<lparr>editingCell := Some (0, ''age''), editValue := ''31''\<rparr>))) = Some (0, ''age'') \<and>
   \<not> isSaving (after (saveEdit sample_parse (Inl (ThrownStr ''update failed''))
       (sample_grid\<lparr>editingCell := Some (0, ''age''), editValue := ''31''\<rparr>)))"
proof -
  let ?s = "sample_grid\<lparr>editingCell := Some (0, ''age''), editValue := ''31''\<rparr>"
  have e: "editingCell ?s = Some (0, ''age'')" by simp
  have n: "\<not> isSaving ?s" by (simp add: sample_grid_def initial_grid_def)
  have l: "lookupOriginal 0 ?s = Inr (Some 0)" by (simp add: sample_lookup_0)
  have v: "newValue sample_parse (editValue ?s) (map_of (documents ?s ! 0) ''age'') = Inr (JNum (Fin 31))"
    by code_simp
  from saveEdit_session [OF e n l, of sample_parse "Inr True"]
    saveEdit_session [OF e n l, of sample_parse "Inl (ThrownStr ''update failed'')"] v
  show ?thesis by simp
qed

subsection \<open>A deletion that deletes nothing\<close>

text \<open>
  C8: when \<open>delete_document\<close> answers \<open>false\<close>, the claim has the grid show a message of
  its own and remove no row. The code removes no row, and shows nothing: after the
  confirmed request the state is the state before, error message included, and the one
  command invoked is the deletion.
\<close>

theorem deleteDocument_reports_nothing:
  "deleteDocument True (Inr False) JSON_parse found doc_id s =
     \<lparr>after = s, calls = [DeleteDocument (collectionName s) doc_id], timers = [], uncaught = None\<rparr>"
  by (simp add: deleteDocument_def)

subsection \<open>The text an edit starts with\<close>

text \<open>
  C9 (as stated): the initial text of an edit is \<open>formatValue\<close> of the value. For \<open>null\<close>
  the edit starts with the text \<open>null\<close> and for an absent value with \<open>undefined\<close>, where
  \<open>formatValue\<close> gives the empty text; for the array \<open>["x"]\<close> the edit starts with the
  text indented over three lines, where \<open>formatValue\<close> gives the compact one.
\<close>

theorem handleCellClick_seed_counterexample:
  "editValue (handleCellClick 0 ''nick'' (Some JNull) sample_grid) = ''null'' \<and>
   formatValue (Some JNull) = [] \<and>
   editValue (handleCellClick 0 ''nick'' None sample_grid) = ''undefined'' \<and>
   formatValue None = [] \<and>
   editValue (handleCellClick 1 ''tags'' (Some (JArr [JStr ''x''])) sample_grid)
     = ''['' @ [CHR 0x0A] @ ''  '' @ [CHR 0x22] @ ''x'' @ [CHR 0x22] @ [CHR 0x0A] @ '']'' \<and>
   formatValue (Some (JArr [JStr ''x''])) = ''['' @ [CHR 0x22] @ ''x'' @ [CHR 0x22] @ '']''"
  by (simp add: handleCellClick_def formatValue_def js_defs)

text \<open>
  C9 (amended): activating a cell other than \<open>_id\<close> starts an edit of that cell. For a
  boolean, a number or a string the initial text is the direct text of the value, the
  same as \<open>formatValue\<close> gives; for \<open>null\<close>, an object or an array it is
  \<open>JSON.stringify(value, null, 2)\<close>, the serialisation indented by two spaces.
\<close>

theorem handleCellClick_seed:
  assumes "header \<noteq> ''_id''"
  shows "editingCell (handleCellClick rowIndex header v s) = Some (rowIndex, header) \<and>
         (typeof v = ''boolean'' \<or> typeof v = ''number'' \<or> typeof v = ''string'' \<longrightarrow>
            editValue (handleCellClick rowIndex header v s) = formatValue v \<and>
            editValue (handleCellClick rowIndex header v s) = ToString v) \<and>
         (\<forall>j. v = Some j \<and> typeof v = ''object'' \<longrightarrow>
            editValue (handleCellClick rowIndex header v s) = JSON_stringify 2 j)"
  using assms
  by (auto simp: handleCellClick_def formatValue_def typeof_def split: option.splits json.splits)

theorem handleCellClick_seed_witness:
  "editingCell (handleCellClick 0 ''age'' (Some (JNum (Fin 30))) sample_grid) = Some (0, ''age'') \<and>
   editValue (handleCellClick 0 ''age'' (Some (JNum (Fin 30))) sample_grid) = ''30'' \<and>
   formatValue (Some (JNum (Fin 30))) = ''30'' \<and>
   editValue (handleCellClick 1 ''tags'' (Some (JArr [])) sample_grid) = ''[]''"
  using handleCellClick_seed [of "''age''" 0 "Some (JNum (Fin 30))" sample_grid]
    handleCellClick_seed [of "''tags''" 1 "Some (JArr [])" sample_grid]
  by (simp add: formatValue_def js_defs)

subsection \<open>A commit whose document is not found\<close>

text \<open>
  C10: when the commit of an edit does not find the authoritative document (the search
  by \<open>_id\<close> returns \<open>undefined\<close>, or stops with a TypeError because the edited row is
  gone), it invokes no remote command and the documents, the headers, the current page,
  the page size, the page count and the rows of the page are as before.
\<close>

theorem saveEdit_lookup_failed:
  assumes "editingCell s = Some (rowIndex, header)"
    and "lookupOriginal rowIndex s = Inr None \<or> isl (lookupOriginal rowIndex s)"
  shows "calls (saveEdit JSON_parse reply s) = [] \<and>
         documents (after (saveEdit JSON_parse reply s)) = documents s \<and>
         tableHeaders (after (saveEdit JSON_parse reply s)) = tableHeaders s \<and>
         currentPage (after (saveEdit JSON_parse reply s)) = currentPage s \<and>
         pageSize (after (saveEdit JSON_parse reply s)) = pageSize s \<and>
         totalPages (after (saveEdit JSON_parse reply s)) = totalPages s \<and>
         paginatedDocuments (after (saveEdit JSON_parse reply s)) = paginatedDocuments s"
proof -
  have "saveEdit JSON_parse reply s = \<lparr>after = s, calls = [], timers = [], uncaught = None\<rparr> \<or>
        (\<exists>u. saveEdit JSON_parse reply s =
           \<lparr>after = s\<lparr>isSaving := True\<rparr>, calls = [], timers = [], uncaught = u\<rparr>)"
    using assms by (cases "lookupOriginal rowIndex s") (auto simp: saveEdit_def)
  then show ?thesis
    by (auto simp: tableHeaders_def totalPages_def paginatedDocuments_def pageStart_def)
qed

theorem saveEdit_lookup_failed_witness:
  "lookupOriginal 0 (initial_grid\<lparr>editingCell := Some (0, ''name''), editValue := ''Al''\<rparr>) = Inr None \<and>
   calls (saveEdit sample_parse (Inr True)
     (initial_grid\<lparr>editingCell := Some (0, ''name''), editValue := ''Al''\<rparr>)) = [] \<and>
   documents (after (saveEdit sample_parse (Inr True)
     (initial_grid\<lparr>editingCell := Some (0, ''name''), editValue := ''Al''\<rparr>))) = [] \<and>
   lookupOriginal 5 sample_grid = Inl (cannot_read ''undefined'' ''_id'') \<and>
   calls (saveEdit sample_parse (Inr True)
     (sample_grid\<lparr>editingCell := Some (5, ''name''), editValue := ''Al''\<rparr>)) = [] \<and>
   documents (after (saveEdit sample_parse (Inr True)
     (sample_grid\<lparr>editingCell := Some (5, ''name''), editValue := ''Al''\<rparr>))) = [sample_A, sample_B]"
proof -
  let ?s = "initial_grid\<lparr>editingCell := Some (0, ''name''), editValue := ''Al''\<rparr>"
  let ?t = "sample_grid\<lparr>editingCell := Some (5, ''name''), editValue := ''Al''\<rparr>"
  have s: "editingCell ?s = Some (0, ''name'')" and t: "editingCell ?t = Some (5, ''name'')"
    by simp_all
  have ls: "lookupOriginal 0 ?s = Inr None \<or> isl (lookupOriginal 0 ?s)"
    by (simp add: empty_lookup)
  have lt: "lookupOriginal 5 ?t = Inr None \<or> isl (lookupOriginal 5 ?t)"
    by (simp add: stale_lookup)
  from saveEdit_lookup_failed [OF s ls, of sample_parse "Inr True"]
    saveEdit_lookup_failed [OF t lt, of sample_parse "Inr True"]
  show ?thesis
    by (simp add: empty_lookup stale_lookup) (simp add: sample_grid_def initial_grid_def)
qed

subsection \<open>Further properties\<close>

text \<open>The pages of a collection hold at most \<open>pageSize\<close> rows each, and the pages 1 to
  \<open>totalPages\<close>, one after the other, are the collection.\<close>

lemma slice_length: "length (slice xs a (a + int n)) \<le> n"
  by (auto simp: slice_def slice_bound_def Let_def)

lemma page_chunk:
  "pageRows s (int (Suc k)) = take (pageSize s) (drop (k * pageSize s) (documents s))"
proof -
  define n where "n = pageSize s"
  define len where "len = length (documents s)"
  have k: "slice_bound len (int k * int n) = min (k * n) len"
    by (simp add: slice_bound_def flip: of_nat_mult)
  have f: "slice_bound len (int k * int n + int n) = min (k * n + n) len"
    by (simp add: slice_bound_def flip: of_nat_mult of_nat_add)
  have "pageRows s (int (Suc k)) =
      take (min (k * n + n) len - min (k * n) len) (drop (min (k * n) len) (documents s))"
    by (simp add: pageRows_def paginatedDocuments_def pageStart_def slice_def Let_def k f
        flip: n_def len_def)
  also have "\<dots> = take n (drop (k * n) (documents s))"
    by (cases "k * n \<le> len") (auto simp: len_def min_def)
  finally show ?thesis by (simp add: n_def)
qed

lemma concat_chunks:
  "concat (map (\<lambda>k. take n (drop (k * n) xs)) [0..<m]) = take (m * n) xs"
proof (induction m)
  case 0
  show ?case by simp
next
  case (Suc m)
  have "take (m * n) xs @ take n (drop (m * n) xs) = take (m * n + n) xs"
    by (simp add: take_add)
  with Suc show ?case by (simp add: add.commute)
qed

lemma pages_partition:
  assumes "0 < pageSize s"
  shows "length (pageRows s p) \<le> pageSize s \<and>
         concat (map (\<lambda>k. pageRows s (int (Suc k))) [0..<nat (totalPages s)]) = documents s"
proof -
  have "length (documents s) \<le> nat (totalPages s) * pageSize s"
  proof -
    have "int (length (documents s)) \<le> int (pageSize s) * totalPages s"
      using totalPages_bounds(2)[OF assms] .
    moreover have "0 \<le> totalPages s"
    proof -
      have "(0::rat) \<le> rat_of_nat (length (documents s)) / rat_of_nat (pageSize s)" by simp
      moreover have "- 1 < (0::rat)" by simp
      ultimately have "- 1 < rat_of_nat (length (documents s)) / rat_of_nat (pageSize s)"
        by (rule less_le_trans[rotated])
      then show ?thesis by (simp add: totalPages_def)
    qed
    ultimately have "int (length (documents s)) \<le> int (nat (totalPages s) * pageSize s)"
      by (simp add: mult.commute)
    then show ?thesis by (simp only: of_nat_le_iff)
  qed
  moreover have "concat (map (\<lambda>k. pageRows s (int (Suc k))) [0..<nat (totalPages s)])
      = take (nat (totalPages s) * pageSize s) (documents s)"
    by (simp only: page_chunk concat_chunks)
  ultimately have "concat (map (\<lambda>k. pageRows s (int (Suc k))) [0..<nat (totalPages s)]) = documents s"
    by (simp only: take_all)
  moreover have "length (pageRows s p) \<le> pageSize s"
    unfolding pageRows_def paginatedDocuments_def Let_def by (simp add: slice_length)
  ultimately show ?thesis by simp
qed

text \<open>A commit that does not find its document leaves \<open>isSaving\<close> set, and every later
  commit returns at once.\<close>

lemma saveEdit_stays_saving:
  assumes "editingCell s = Some (rowIndex, header)" and "\<not> isSaving s"
    and "lookupOriginal rowIndex s = Inr None \<or> isl (lookupOriginal rowIndex s)"
  shows "isSaving (after (saveEdit JSON_parse reply s)) \<and>
         saveEdit JSON_parse' reply' (after (saveEdit JSON_parse reply s)) =
           \<lparr>after = after (saveEdit JSON_parse reply s), calls = [], timers = [], uncaught = None\<rparr>"
proof -
  obtain u where "saveEdit JSON_parse reply s =
      \<lparr>after = s\<lparr>isSaving := True\<rparr>, calls = [], timers = [], uncaught = u\<rparr>"
    using assms by (cases "lookupOriginal rowIndex s") (auto simp: saveEdit_def)
  with assms(1) show ?thesis by (simp add: saveEdit_def)
qed

end
